theory Spec2Isabelle
  imports Main
begin

section \<open>Go values used by provider/aws/session.go\<close>

text \<open>
  Go strings are byte sequences: \<open>string\<close> (a list of \<open>char\<close>, one per byte).
  Indexing a slice out of range panics; the panic is a value of the model.
\<close>

datatype panic = IndexOutOfRange

definition go_index :: "'a list \<Rightarrow> int \<Rightarrow> panic + 'a" where
  "go_index a i =
     (if 0 \<le> i \<and> i < int (length a) then Inr (a ! nat i) else Inl IndexOutOfRange)"

text \<open>
  \<open>strings.Index(s, substr)\<close>: the byte offset of the first occurrence of \<open>substr\<close>
  in \<open>s\<close>; Go's \<open>-1\<close> is \<open>None\<close>.
\<close>

fun strings_Index :: "string \<Rightarrow> string \<Rightarrow> nat option" where
  "strings_Index [] substr = (if substr = [] then Some 0 else None)"
| "strings_Index (c # s) substr =
     (if take (length substr) (c # s) = substr then Some 0
      else map_option Suc (strings_Index s substr))"

text \<open>
  \<open>strings.Split(s, sep)\<close> (genSplit with \<open>n < 0\<close>): cut at the first occurrence of
  \<open>sep\<close>, continue behind it, and end with what is left. With an empty separator Go
  splits after each UTF-8 sequence (\<open>explode\<close>); that branch is written for one-byte
  characters and is not reached from session.go, whose separator is the literal "/".
\<close>

definition explode :: "string \<Rightarrow> string list" where
  "explode s = map (\<lambda>c. [c]) s"

lemma strings_Index_Some_nonempty:
  "strings_Index s sep = Some m \<Longrightarrow> sep \<noteq> [] \<Longrightarrow> s \<noteq> []"
  by (cases s) auto

function strings_Split :: "string \<Rightarrow> string \<Rightarrow> string list" where
  "strings_Split s sep =
     (if sep = [] then explode s
      else (case strings_Index s sep of
              None \<Rightarrow> [s]
            | Some m \<Rightarrow> take m s # strings_Split (drop (m + length sep) s) sep))"
  by pat_completeness auto
termination
proof (relation "measure (\<lambda>(s, sep). length s)")
  show "wf (measure (\<lambda>(s, sep). length s))"
    by simp
next
  fix s sep :: string and m :: nat
  assume "sep \<noteq> []" and "strings_Index s sep = Some m"
  then have "s \<noteq> []"
    using strings_Index_Some_nonempty by blast
  with \<open>sep \<noteq> []\<close> show "((drop (m + length sep) s, sep), (s, sep)) \<in> measure (\<lambda>(s, sep). length s)"
    by (cases sep) auto
qed

declare strings_Split.simps [simp del]

text \<open>
  The callback both build paths hand to \<open>instrumented_http.NewClient\<close>:
  \<^verbatim>\<open>
  PathProcessor: func(path string) string {
      parts := strings.Split(path, "/")
      return parts[len(parts)-1]
  }
  \<close>
\<close>

type_synonym path_processor = "string \<Rightarrow> panic + string"

section \<open>Errors, log output and process exit\<close>

text \<open>
  A Go \<open>error\<close>: one the SDK returned, or \<open>fmt.Errorf(prefix + "%w", err)\<close>, which
  keeps the wrapped error and whose message is the prefix followed by its message.
\<close>

datatype error = SDKError string | Errorf_w string error

fun Error :: "error \<Rightarrow> string" where
  "Error (SDKError msg) = msg"
| "Error (Errorf_w prefix err) = prefix @ Error err"

fun Unwrap :: "error \<Rightarrow> error option" where
  "Unwrap (SDKError msg) = None"
| "Unwrap (Errorf_w prefix err) = Some err"

datatype log_entry = Info string | Fatal string

text \<open>
  What the process has done so far that a later step can see: the lines logrus
  wrote, and how many \<open>session.Session\<close> values were allocated (\<open>newSession\<close> returns a
  pointer; the n-th allocation has address n).
\<close>

record world =
  log :: "log_entry list"
  allocated :: nat

text \<open>A call either returns, or the process has exited (\<open>logrus.Fatal\<close> calls \<open>os.Exit(1)\<close>).\<close>

datatype 'a outcome = Returned 'a | Exited int

definition logrus_Info :: "string \<Rightarrow> world \<Rightarrow> world" where
  "logrus_Info line w = w\<lparr>log := log w @ [Info line]\<rparr>"

definition logrus_Fatal :: "error \<Rightarrow> world \<Rightarrow> 'a outcome \<times> world" where
  "logrus_Fatal err w = (Exited 1, w\<lparr>log := log w @ [Fatal (Error err)]\<rparr>)"

section \<open>The SDK values the builders configure\<close>

text \<open>
  The AWS SDKs, \<open>net/http\<close> and \<open>instrumented_http\<close> are third-party packages. Their
  values are records of the settings session.go reads and writes; their constructors
  store what they are given.
\<close>

subsection \<open>HTTP clients\<close>

record instrumented_http_Callbacks =
  PathProcessor :: path_processor

text \<open>
  \<open>EmptyClient\<close> is \<open>&http.Client{}\<close>; \<open>Instrumented next cbs\<close> is what
  \<open>instrumented_http.NewClient(next, cbs)\<close> returns (\<open>next\<close> may be nil).
\<close>

datatype http_Client = EmptyClient | Instrumented "http_Client option" instrumented_http_Callbacks

definition instrumented_http_NewClient ::
  "http_Client option \<Rightarrow> instrumented_http_Callbacks \<Rightarrow> http_Client" where
  "instrumented_http_NewClient next cbs = Instrumented next cbs"

fun callbacks_of :: "http_Client \<Rightarrow> instrumented_http_Callbacks option" where
  "callbacks_of EmptyClient = None"
| "callbacks_of (Instrumented next cbs) = Some cbs"

subsection \<open>The legacy generation: aws-sdk-go\<close>

text \<open>
  \<open>stscreds.AssumeRoleProvider\<close>, the fields session.go sets; \<open>ExternalID\<close> is a
  \<open>*string\<close>, nil when unset.
\<close>

record AssumeRoleProvider =
  RoleARN :: string
  ExternalID :: "string option"

text \<open>
  \<open>DefaultChain p\<close> stands for the credentials the SDK resolves by itself (environment,
  shared config of profile \<open>p\<close>, instance metadata).
\<close>

datatype credentials = DefaultChain string | StsCredentials AssumeRoleProvider

record aws_Config =
  MaxRetries :: "int option"
  HTTPClient :: "http_Client option"
  Credentials :: "credentials option"

definition aws_NewConfig :: aws_Config where
  "aws_NewConfig = \<lparr>MaxRetries = None, HTTPClient = None, Credentials = None\<rparr>"

definition WithMaxRetries :: "aws_Config \<Rightarrow> int \<Rightarrow> aws_Config" where
  "WithMaxRetries c n = c\<lparr>MaxRetries := Some n\<rparr>"

definition WithHTTPClient :: "aws_Config \<Rightarrow> http_Client \<Rightarrow> aws_Config" where
  "WithHTTPClient c client = c\<lparr>HTTPClient := Some client\<rparr>"

definition WithCredentials :: "aws_Config \<Rightarrow> credentials \<Rightarrow> aws_Config" where
  "WithCredentials c creds = c\<lparr>Credentials := Some creds\<rparr>"

datatype SharedConfigState = SharedConfigStateFromEnv | SharedConfigDisable | SharedConfigEnable

record session_Options =
  Options_Config :: aws_Config
  Options_SharedConfigState :: SharedConfigState
  Options_Profile :: string

text \<open>\<open>request.MakeAddToUserAgentHandler(name, version)\<close>.\<close>

datatype handler = AddToUserAgent string string

text \<open>
  \<open>*session.Session\<close>: its address, its \<open>Config\<close>, and the handlers pushed to
  \<open>Handlers.Build\<close> behind the SDK's own.
\<close>

record session_Session =
  addr :: nat
  Config :: aws_Config
  Handlers_Build :: "handler list"

subsection \<open>The newer generation: aws-sdk-go-v2\<close>

text \<open>
  A \<open>Retryer\<close>: \<open>retry.NewStandard()\<close>, or one wrapped by
  \<open>retry.AddWithMaxAttempts(r, max)\<close>, whose \<open>MaxAttempts()\<close> is \<open>max\<close>.
\<close>

datatype retryer = retry_NewStandard | retry_AddWithMaxAttempts retryer int

definition DefaultMaxAttempts :: int where
  "DefaultMaxAttempts = 3"

fun MaxAttempts :: "retryer \<Rightarrow> int" where
  "MaxAttempts retry_NewStandard = DefaultMaxAttempts"
| "MaxAttempts (retry_AddWithMaxAttempts r n) = n"

record stscredsv2_AssumeRoleOptions =
  v2_RoleARN :: string
  v2_ExternalID :: "string option"

datatype credentialsv2 =
    DefaultChainV2 string
  | AssumeRoleProviderV2 stscredsv2_AssumeRoleOptions
  | CredentialsCache credentialsv2

record config_LoadOptions =
  opt_Retryer :: "retryer option"
  opt_HTTPClient :: "http_Client option"
  opt_SharedConfigProfile :: string
  opt_APIOptions :: "handler list"

definition config_WithRetryer :: "retryer \<Rightarrow> config_LoadOptions \<Rightarrow> config_LoadOptions" where
  "config_WithRetryer v = (\<lambda>lo. lo\<lparr>opt_Retryer := Some v\<rparr>)"

definition config_WithHTTPClient :: "http_Client \<Rightarrow> config_LoadOptions \<Rightarrow> config_LoadOptions" where
  "config_WithHTTPClient v = (\<lambda>lo. lo\<lparr>opt_HTTPClient := Some v\<rparr>)"

definition config_WithSharedConfigProfile :: "string \<Rightarrow> config_LoadOptions \<Rightarrow> config_LoadOptions" where
  "config_WithSharedConfigProfile v = (\<lambda>lo. lo\<lparr>opt_SharedConfigProfile := v\<rparr>)"

text \<open>
  \<open>awsv2.Config\<close>, a struct returned by value: the retryer, the HTTP client, the
  credentials provider and the middleware added to every request (\<open>APIOptions\<close>).
\<close>

record awsv2_Config =
  Retryer :: "retryer option"
  v2_HTTPClient :: "http_Client option"
  v2_Credentials :: credentialsv2
  APIOptions :: "handler list"

subsection \<open>What session.go takes from its surroundings\<close>

text \<open>
  Whether the SDK can assemble a base session or configuration depends on files and
  environment variables outside the program: \<open>session_failure\<close> and \<open>config_failure\<close>
  give the error, if any, for the options passed. \<open>Version\<close> is \<open>externaldns.Version\<close>
  and \<open>defaultAWSProfile\<close> the package constant of that name; both are declared in
  other files of the repository.
\<close>

record environment =
  session_failure :: "session_Options \<Rightarrow> error option"
  config_failure :: "config_LoadOptions \<Rightarrow> error option"
  Version :: string
  defaultAWSProfile :: string

text \<open>
  \<open>session.NewSessionWithOptions\<close>: fails, or allocates a session that keeps the
  caller's settings and resolves credentials by the default chain where the caller
  gave none.
\<close>

definition session_NewSessionWithOptions ::
  "environment \<Rightarrow> session_Options \<Rightarrow> world \<Rightarrow> (error + session_Session) \<times> world" where
  "session_NewSessionWithOptions env opts w =
     (case session_failure env opts of
        Some err \<Rightarrow> (Inl err, w)
      | None \<Rightarrow>
          (Inr \<lparr>addr = allocated w,
                Config = (case Credentials (Options_Config opts) of
                            None \<Rightarrow> (Options_Config opts)
                                     \<lparr>Credentials := Some (DefaultChain (Options_Profile opts))\<rparr>
                          | Some creds \<Rightarrow> Options_Config opts),
                Handlers_Build = []\<rparr>,
           w\<lparr>allocated := Suc (allocated w)\<rparr>))"

text \<open>
  \<open>stscreds.NewCredentials(c, roleARN, options...)\<close>: a provider for the role, each
  option applied to it in turn.
\<close>

definition stscreds_NewCredentials ::
  "session_Session \<Rightarrow> string \<Rightarrow> (AssumeRoleProvider \<Rightarrow> AssumeRoleProvider) list \<Rightarrow> credentials" where
  "stscreds_NewCredentials c roleARN options =
     StsCredentials (fold (\<lambda>option p. option p) options \<lparr>RoleARN = roleARN, ExternalID = None\<rparr>)"

text \<open>
  \<open>config.LoadDefaultConfig(ctx, optFns...)\<close>: applies the options to empty
  \<open>LoadOptions\<close>, then fails or returns the configuration resolved from them.
\<close>

definition config_LoadDefaultConfig ::
  "environment \<Rightarrow> (config_LoadOptions \<Rightarrow> config_LoadOptions) list \<Rightarrow> world
     \<Rightarrow> (error + awsv2_Config) \<times> world" where
  "config_LoadDefaultConfig env optFns w =
     (let opts = fold (\<lambda>optFn lo. optFn lo) optFns
                   \<lparr>opt_Retryer = None, opt_HTTPClient = None,
                    opt_SharedConfigProfile = [], opt_APIOptions = []\<rparr>
      in case config_failure env opts of
           Some err \<Rightarrow> (Inl err, w)
         | None \<Rightarrow>
             (Inr \<lparr>Retryer = opt_Retryer opts,
                   v2_HTTPClient = opt_HTTPClient opts,
                   v2_Credentials = DefaultChainV2 (opt_SharedConfigProfile opts),
                   APIOptions = opt_APIOptions opts\<rparr>, w))"

definition stscredsv2_NewAssumeRoleProvider ::
  "string \<Rightarrow> (stscredsv2_AssumeRoleOptions \<Rightarrow> stscredsv2_AssumeRoleOptions) list \<Rightarrow> credentialsv2" where
  "stscredsv2_NewAssumeRoleProvider roleARN optFns =
     AssumeRoleProviderV2
       (fold (\<lambda>optFn lo. optFn lo) optFns \<lparr>v2_RoleARN = roleARN, v2_ExternalID = None\<rparr>)"

definition awsv2_NewCredentialsCache :: "credentialsv2 \<Rightarrow> credentialsv2" where
  "awsv2_NewCredentialsCache provider = CredentialsCache provider"

section \<open>provider/aws/session.go\<close>

text \<open>\<open>AWSSessionConfig\<close> contains configuration to create a new AWS provider.\<close>

record AWSSessionConfig =
  AssumeRole :: string
  AssumeRoleExternalID :: string
  APIRetries :: int
  Profile :: string

text \<open>The fields of \<open>externaldns.Config\<close> that session.go reads.\<close>

record externaldns_Config =
  AWSAssumeRole :: string
  AWSAssumeRoleExternalID :: string
  AWSAPIRetries :: int
  AWSProfiles :: "string list"

subsection \<open>newSession\<close>

definition newSession ::
  "environment \<Rightarrow> AWSSessionConfig \<Rightarrow> world \<Rightarrow> (error + session_Session) \<times> world" where
  "newSession env awsConfig w =
     (let config = WithMaxRetries aws_NewConfig (APIRetries awsConfig);
          config = WithHTTPClient config
                     (instrumented_http_NewClient (HTTPClient config)
                        \<lparr>PathProcessor = (\<lambda>path.
                           let parts = strings_Split path ''/''
                           in go_index parts (int (length parts) - 1))\<rparr>);
          (r, w) = session_NewSessionWithOptions env
                     \<lparr>Options_Config = config,
                      Options_SharedConfigState = SharedConfigEnable,
                      Options_Profile = Profile awsConfig\<rparr> w
      in case r of
           Inl err \<Rightarrow> (Inl (Errorf_w ''instantiating AWS session: '' err), w)
         | Inr session \<Rightarrow>
             (let (session, w) =
                    (if AssumeRole awsConfig \<noteq> [] then
                       (if AssumeRoleExternalID awsConfig \<noteq> [] then
                          (let w = logrus_Info (''Assuming role: '' @ AssumeRole awsConfig
                                      @ '' with external id '' @ AssumeRoleExternalID awsConfig) w
                           in (session\<lparr>Config := WithCredentials (Config session)
                                 (stscreds_NewCredentials session (AssumeRole awsConfig)
                                    [\<lambda>p. p\<lparr>ExternalID := Some (AssumeRoleExternalID awsConfig)\<rparr>])\<rparr>, w))
                        else
                          (let w = logrus_Info (''Assuming role: '' @ AssumeRole awsConfig) w
                           in (session\<lparr>Config := WithCredentials (Config session)
                                 (stscreds_NewCredentials session (AssumeRole awsConfig) [])\<rparr>, w)))
                     else (session, w));
                  session = session\<lparr>Handlers_Build := Handlers_Build session
                               @ [AddToUserAgent ''ExternalDNS'' (Version env)]\<rparr>
              in (Inr session, w)))"

subsection \<open>newV2Config\<close>

definition newV2Config ::
  "environment \<Rightarrow> AWSSessionConfig \<Rightarrow> world \<Rightarrow> (error + awsv2_Config) \<times> world" where
  "newV2Config env awsConfig w =
     (let defaultOpts =
            [config_WithRetryer
               (retry_AddWithMaxAttempts retry_NewStandard (APIRetries awsConfig)),
             config_WithHTTPClient
               (instrumented_http_NewClient (Some EmptyClient)
                  \<lparr>PathProcessor = (\<lambda>path.
                     let parts = strings_Split path ''/''
                     in go_index parts (int (length parts) - 1))\<rparr>),
             config_WithSharedConfigProfile (Profile awsConfig)];
          (r, w) = config_LoadDefaultConfig env defaultOpts w
      in case r of
           Inl err \<Rightarrow> (Inl (Errorf_w ''instantiating AWS config: '' err), w)
         | Inr cfg \<Rightarrow>
             (if AssumeRole awsConfig \<noteq> [] then
                (let (assumeRoleOpts, w) =
                       (if AssumeRoleExternalID awsConfig \<noteq> [] then
                          ([\<lambda>opts. opts\<lparr>v2_ExternalID := Some (AssumeRoleExternalID awsConfig)\<rparr>],
                           logrus_Info (''Assuming role: '' @ AssumeRole awsConfig
                              @ '' with external id '' @ AssumeRoleExternalID awsConfig) w)
                        else
                          ([], logrus_Info (''Assuming role: '' @ AssumeRole awsConfig) w));
                     creds = stscredsv2_NewAssumeRoleProvider (AssumeRole awsConfig) assumeRoleOpts
                 in (Inr (cfg\<lparr>v2_Credentials := awsv2_NewCredentialsCache creds\<rparr>), w))
              else (Inr cfg, w)))"

subsection \<open>The entry points\<close>

definition CreateDefaultV2Config ::
  "environment \<Rightarrow> externaldns_Config \<Rightarrow> world \<Rightarrow> awsv2_Config outcome \<times> world" where
  "CreateDefaultV2Config env cfg w =
     (case newV2Config env
             \<lparr>AssumeRole = AWSAssumeRole cfg,
              AssumeRoleExternalID = AWSAssumeRoleExternalID cfg,
              APIRetries = AWSAPIRetries cfg,
              Profile = []\<rparr> w of
        (Inl err, w) \<Rightarrow> logrus_Fatal err w
      | (Inr result, w) \<Rightarrow> (Returned result, w))"

definition CreateDefaultSession ::
  "environment \<Rightarrow> externaldns_Config \<Rightarrow> world \<Rightarrow> session_Session outcome \<times> world" where
  "CreateDefaultSession env cfg w =
     (case newSession env
             \<lparr>AssumeRole = AWSAssumeRole cfg,
              AssumeRoleExternalID = AWSAssumeRoleExternalID cfg,
              APIRetries = AWSAPIRetries cfg,
              Profile = []\<rparr> w of
        (Inl err, w) \<Rightarrow> logrus_Fatal err w
      | (Inr result, w) \<Rightarrow> (Returned result, w))"

text \<open>The \<open>for _, profile := range cfg.AWSProfiles\<close> loop of \<open>CreateSessions\<close>.\<close>

fun CreateSessions_range ::
  "environment \<Rightarrow> externaldns_Config \<Rightarrow> string list \<Rightarrow> (string \<rightharpoonup> session_Session) \<Rightarrow> world
     \<Rightarrow> (string \<rightharpoonup> session_Session) outcome \<times> world" where
  "CreateSessions_range env cfg [] result w = (Returned result, w)"
| "CreateSessions_range env cfg (profile # rest) result w =
     (case newSession env
             \<lparr>AssumeRole = AWSAssumeRole cfg,
              AssumeRoleExternalID = AWSAssumeRoleExternalID cfg,
              APIRetries = AWSAPIRetries cfg,
              Profile = profile\<rparr> w of
        (Inl err, w) \<Rightarrow> logrus_Fatal err w
      | (Inr session, w) \<Rightarrow> CreateSessions_range env cfg rest (result(profile \<mapsto> session)) w)"

definition CreateSessions ::
  "environment \<Rightarrow> externaldns_Config \<Rightarrow> world
     \<Rightarrow> (string \<rightharpoonup> session_Session) outcome \<times> world" where
  "CreateSessions env cfg w =
     (let result = Map.empty
      in if length (AWSProfiles cfg) = 0
            \<or> (length (AWSProfiles cfg) = 1 \<and> AWSProfiles cfg ! 0 = []) then
           (case newSession env
                   \<lparr>AssumeRole = AWSAssumeRole cfg,
                    AssumeRoleExternalID = AWSAssumeRoleExternalID cfg,
                    APIRetries = AWSAPIRetries cfg,
                    Profile = []\<rparr> w of
              (Inl err, w) \<Rightarrow> logrus_Fatal err w
            | (Inr session, w) \<Rightarrow> (Returned (result(defaultAWSProfile env \<mapsto> session)), w))
         else CreateSessions_range env cfg (AWSProfiles cfg) result w)"

section \<open>Reading a handle\<close>

text \<open>The path callback of the HTTP client a handle carries, if it carries one.\<close>

definition session_PathProcessor :: "session_Session \<Rightarrow> path_processor option" where
  "session_PathProcessor s =
     (case HTTPClient (Config s) of
        None \<Rightarrow> None
      | Some client \<Rightarrow> map_option PathProcessor (callbacks_of client))"

definition config_PathProcessor :: "awsv2_Config \<Rightarrow> path_processor option" where
  "config_PathProcessor cfg =
     (case v2_HTTPClient cfg of
        None \<Rightarrow> None
      | Some client \<Rightarrow> map_option PathProcessor (callbacks_of client))"

text \<open>The spec's wording of the label: the substring after the last "/".\<close>

definition after_last_slash :: "string \<Rightarrow> string" where
  "after_last_slash path = rev (takeWhile (\<lambda>c. c \<noteq> CHR ''/'') (rev path))"

text \<open>
  The arguments the builders hand to the SDK's base construction, and the
  \<open>AWSSessionConfig\<close> literal the entry points build for a profile.
\<close>

definition newSession_Options :: "AWSSessionConfig \<Rightarrow> session_Options" where
  "newSession_Options awsConfig =
     \<lparr>Options_Config =
        WithHTTPClient (WithMaxRetries aws_NewConfig (APIRetries awsConfig))
          (instrumented_http_NewClient
             (HTTPClient (WithMaxRetries aws_NewConfig (APIRetries awsConfig)))
             \<lparr>PathProcessor = (\<lambda>path.
                let parts = strings_Split path ''/''
                in go_index parts (int (length parts) - 1))\<rparr>),
      Options_SharedConfigState = SharedConfigEnable,
      Options_Profile = Profile awsConfig\<rparr>"

definition newV2Config_defaultOpts ::
  "AWSSessionConfig \<Rightarrow> (config_LoadOptions \<Rightarrow> config_LoadOptions) list" where
  "newV2Config_defaultOpts awsConfig =
     [config_WithRetryer (retry_AddWithMaxAttempts retry_NewStandard (APIRetries awsConfig)),
      config_WithHTTPClient
        (instrumented_http_NewClient (Some EmptyClient)
           \<lparr>PathProcessor = (\<lambda>path.
              let parts = strings_Split path ''/''
              in go_index parts (int (length parts) - 1))\<rparr>),
      config_WithSharedConfigProfile (Profile awsConfig)]"

definition newV2Config_LoadOptions :: "AWSSessionConfig \<Rightarrow> config_LoadOptions" where
  "newV2Config_LoadOptions awsConfig =
     fold (\<lambda>optFn lo. optFn lo) (newV2Config_defaultOpts awsConfig)
       \<lparr>opt_Retryer = None, opt_HTTPClient = None,
        opt_SharedConfigProfile = [], opt_APIOptions = []\<rparr>"

definition sessionConfig :: "externaldns_Config \<Rightarrow> string \<Rightarrow> AWSSessionConfig" where
  "sessionConfig cfg profile =
     \<lparr>AssumeRole = AWSAssumeRole cfg,
      AssumeRoleExternalID = AWSAssumeRoleExternalID cfg,
      APIRetries = AWSAPIRetries cfg,
      Profile = profile\<rparr>"




text \<open>
  How often a handle lets a failed request be repeated, by the SDKs' contracts. The
  legacy client repeats a request while its retry count is below \<open>MaxRetries\<close>; a nil
  \<open>MaxRetries\<close> or \<open>aws.UseServiceDefaultRetries\<close> stands for the default of its
  retryer. The newer SDK numbers the attempts of a request from 1, the first try
  included, and gives up when \<open>MaxAttempts()\<close> is positive and the attempt number has
  reached it; with \<open>MaxAttempts()\<close> at 0 the attempt number never stops it
  (\<open>None\<close>: no bound on the attempts).
\<close>

definition UseServiceDefaultRetries :: int where
  "UseServiceDefaultRetries = - 1"

definition DefaultRetryerMaxNumRetries :: int where
  "DefaultRetryerMaxNumRetries = 3"

definition legacy_max_retries :: "aws_Config \<Rightarrow> int" where
  "legacy_max_retries c =
     (case MaxRetries c of
        None \<Rightarrow> DefaultRetryerMaxNumRetries
      | Some n \<Rightarrow> if n = UseServiceDefaultRetries then DefaultRetryerMaxNumRetries else n)"

definition retryer_max_retries :: "retryer \<Rightarrow> int option" where
  "retryer_max_retries r = (if MaxAttempts r \<le> 0 then None else Some (MaxAttempts r - 1))"

section \<open>Example inputs\<close>

definition example_environment :: environment where
  "example_environment =
     \<lparr>session_failure = (\<lambda>opts.
        if Options_Profile opts = ''broken''
        then Some (SDKError ''failed to load shared config file'') else None),
      config_failure = (\<lambda>lo.
        if opt_SharedConfigProfile lo = ''broken''
        then Some (SDKError ''failed to load shared config file'') else None),
      Version = ''v0.14.0'',
      defaultAWSProfile = ''default''\<rparr>"

definition example_config :: AWSSessionConfig where
  "example_config =
     \<lparr>AssumeRole = ''arn:aws:iam::123456789012:role/dns'',
      AssumeRoleExternalID = ''ext-1'',
      APIRetries = 3,
      Profile = ''''\<rparr>"

definition example_world :: world where
  "example_world = \<lparr>log = [], allocated = 0\<rparr>"

definition example_config_no_role :: AWSSessionConfig where
  "example_config_no_role =
     \<lparr>AssumeRole = '''',
      AssumeRoleExternalID = ''ext-1'',
      APIRetries = 3,
      Profile = ''staging''\<rparr>"

definition example_dns_config :: "string list \<Rightarrow> externaldns_Config" where
  "example_dns_config profiles =
     \<lparr>AWSAssumeRole = ''arn:aws:iam::123456789012:role/dns'',
      AWSAssumeRoleExternalID = '''',
      AWSAPIRetries = 3,
      AWSProfiles = profiles\<rparr>"

definition failing_environment :: environment where
  "failing_environment =
     \<lparr>session_failure = (\<lambda>opts. Some (SDKError ''no such file'')),
      config_failure = (\<lambda>lo. Some (SDKError ''no such file'')),
      Version = ''v0.14.0'',
      defaultAWSProfile = ''default''\<rparr>"

definition example_config_no_retries :: AWSSessionConfig where
  "example_config_no_retries =
     \<lparr>AssumeRole = '''', AssumeRoleExternalID = '''', APIRetries = 0, Profile = ''''\<rparr>"

section \<open>Splitting a path\<close>

lemma strings_Index_byte:
  "strings_Index s [c] =
     (if c \<in> set s then Some (length (takeWhile (\<lambda>x. x \<noteq> c) s)) else None)"
  by (induction s) auto

lemma strings_Split_byte:
  "strings_Split s [c] =
     (if c \<in> set s
      then takeWhile (\<lambda>x. x \<noteq> c) s # strings_Split (tl (dropWhile (\<lambda>x. x \<noteq> c) s)) [c]
      else [s])"
proof (cases "c \<in> set s")
  case False
  then show ?thesis
    by (subst strings_Split.simps) (simp add: strings_Index_byte)
next
  case True
  have "take (length (takeWhile (\<lambda>x. x \<noteq> c) s)) s = takeWhile (\<lambda>x. x \<noteq> c) s"
    by (induction s) auto
  moreover have "drop (Suc (length (takeWhile (\<lambda>x. x \<noteq> c) s))) s = tl (dropWhile (\<lambda>x. x \<noteq> c) s)"
    by (induction s) auto
  ultimately show ?thesis
    using True by (subst strings_Split.simps) (simp add: strings_Index_byte)
qed

lemma strings_Split_byte_nonempty: "strings_Split s [c] \<noteq> []"
  by (subst strings_Split_byte) simp

lemma takeWhile_none: "c \<notin> set xs \<Longrightarrow> takeWhile (\<lambda>x. x \<noteq> c) xs = xs"
  by (induction xs) auto

lemma last_strings_Split_byte:
  "last (strings_Split s [c]) = rev (takeWhile (\<lambda>x. x \<noteq> c) (rev s))"
proof (induction "length s" arbitrary: s rule: less_induct)
  case less
  show ?case
  proof (cases "c \<in> set s")
    case False
    then show ?thesis
      by (subst strings_Split_byte) (simp add: takeWhile_none)
  next
    case True
    define front where "front = takeWhile (\<lambda>x. x \<noteq> c) s"
    define rest where "rest = tl (dropWhile (\<lambda>x. x \<noteq> c) s)"
    have dw: "dropWhile (\<lambda>x. x \<noteq> c) s = c # rest"
      using True unfolding rest_def
      by (metis (mono_tags, lifting) dropWhile_eq_Nil_conv hd_dropWhile list.collapse)
    have s: "s = front @ c # rest"
      unfolding front_def using dw by (metis takeWhile_dropWhile_id)
    have "length rest < length s"
      using s by simp
    then have IH: "last (strings_Split rest [c]) = rev (takeWhile (\<lambda>x. x \<noteq> c) (rev rest))"
      using less by blast
    have "takeWhile (\<lambda>x. x \<noteq> c) (rev s) = takeWhile (\<lambda>x. x \<noteq> c) (rev rest)"
    proof (cases "c \<in> set rest")
      case True
      then show ?thesis
        unfolding s by (simp add: takeWhile_append1 [where x = c])
    next
      case False
      then have "takeWhile (\<lambda>x. x \<noteq> c) (rev rest @ c # rev front)
                   = rev rest @ takeWhile (\<lambda>x. x \<noteq> c) (c # rev front)"
        by (intro takeWhile_append2) auto
      with False show ?thesis
        unfolding s by (simp add: takeWhile_none)
    qed
    with IH True show ?thesis
      by (subst strings_Split_byte) (simp add: rest_def strings_Split_byte_nonempty)
  qed
qed

lemma last_part:
  "(let parts = strings_Split path ''/'' in go_index parts (int (length parts) - 1))
     = Inr (after_last_slash path)"
proof -
  define parts where "parts = strings_Split path ''/''"
  have "parts \<noteq> []"
    unfolding parts_def by (rule strings_Split_byte_nonempty)
  then have "go_index parts (int (length parts) - 1) = Inr (last parts)"
    by (cases parts rule: rev_cases) (auto simp: go_index_def nat_diff_distrib')
  then show ?thesis
    by (simp add: parts_def [symmetric] after_last_slash_def)
       (simp add: parts_def last_strings_Split_byte)
qed

section \<open>What the builders return\<close>

lemmas v1_defs =
  session_NewSessionWithOptions_def WithMaxRetries_def WithHTTPClient_def
  WithCredentials_def aws_NewConfig_def instrumented_http_NewClient_def
  stscreds_NewCredentials_def logrus_Info_def newSession_Options_def

lemmas v2_defs =
  config_LoadDefaultConfig_def config_WithRetryer_def config_WithHTTPClient_def
  config_WithSharedConfigProfile_def instrumented_http_NewClient_def
  stscredsv2_NewAssumeRoleProvider_def awsv2_NewCredentialsCache_def logrus_Info_def
  newV2Config_defaultOpts_def newV2Config_LoadOptions_def

lemma newSession_failure:
  "session_failure env (newSession_Options awsConfig) = Some err \<Longrightarrow>
   newSession env awsConfig w = (Inl (Errorf_w ''instantiating AWS session: '' err), w)"
  by (simp add: newSession_def v1_defs)

lemma newSession_success:
  "session_failure env (newSession_Options awsConfig) = None \<Longrightarrow>
   \<exists>session w'. newSession env awsConfig w = (Inr session, w')
      \<and> addr session = allocated w \<and> allocated w' = Suc (allocated w)"
  by (simp add: newSession_def v1_defs Let_def)

lemma newV2Config_failure:
  "config_failure env (newV2Config_LoadOptions awsConfig) = Some err \<Longrightarrow>
   newV2Config env awsConfig w = (Inl (Errorf_w ''instantiating AWS config: '' err), w)"
  by (simp add: newV2Config_def v2_defs Let_def)

lemma newV2Config_success:
  "config_failure env (newV2Config_LoadOptions awsConfig) = None \<Longrightarrow>
   \<exists>cfg w'. newV2Config env awsConfig w = (Inr cfg, w')"
  by (simp add: newV2Config_def v2_defs Let_def)

lemma newSession_PathProcessor:
  "fst (newSession env awsConfig w) = Inr session \<Longrightarrow>
   session_PathProcessor session = Some (\<lambda>path.
     let parts = strings_Split path ''/'' in go_index parts (int (length parts) - 1))"
  by (auto simp: newSession_def v1_defs session_PathProcessor_def Let_def
      split: option.splits sum.splits if_splits prod.splits)

lemma newV2Config_PathProcessor:
  "fst (newV2Config env awsConfig w) = Inr cfg \<Longrightarrow>
   config_PathProcessor cfg = Some (\<lambda>path.
     let parts = strings_Split path ''/'' in go_index parts (int (length parts) - 1))"
  by (auto simp: newV2Config_def v2_defs config_PathProcessor_def Let_def
      split: option.splits sum.splits if_splits prod.splits)

lemma example_session_builds:
  "\<exists>session. fst (newSession example_environment example_config example_world) = Inr session"
  using newSession_success [of example_environment example_config example_world]
  by (auto simp: example_environment_def example_config_def newSession_Options_def)

lemma example_config_builds:
  "\<exists>cfg. fst (newV2Config example_environment example_config example_world) = Inr cfg"
  using newV2Config_success [of example_environment example_config example_world]
  by (auto simp: example_environment_def example_config_def v2_defs)

section \<open>The path-label reducer\<close>

lemma reducer_facts:
  fixes reduce :: path_processor
  assumes "reduce = (\<lambda>path.
     let parts = strings_Split path ''/'' in go_index parts (int (length parts) - 1))"
  shows "reduce path = Inr (after_last_slash path)"
    and "reduce ''/2013-04-01/hostedzone/ZABCDEF123/rrset'' = Inr ''rrset''"
    and "\<exists>label. reduce path = Inr label"
    and "reduce [] = Inr []"
    and "reduce (path @ ''/'') = Inr []"
proof -
  show eq: "reduce p = Inr (after_last_slash p)" for p
    unfolding assms by (rule last_part)
  show "reduce ''/2013-04-01/hostedzone/ZABCDEF123/rrset'' = Inr ''rrset''"
    unfolding eq by (simp add: after_last_slash_def)
  show "\<exists>label. reduce path = Inr label"
    unfolding eq by simp
  show "reduce [] = Inr []"
    unfolding eq by (simp add: after_last_slash_def)
  show "reduce (path @ ''/'') = Inr []"
    unfolding eq by (simp add: after_last_slash_def)
qed

text \<open>
  Claim C7. The path callback of the instrumented HTTP client returns the final path
  segment, the substring after the last "/"; for "/2013-04-01/hostedzone/ZABCDEF123/rrset"
  it returns "rrset". Both \<open>newSession\<close> and \<open>newV2Config\<close> install this callback.
\<close>

theorem C7_path_label_reducer:
  "(fst (newSession env awsConfig w) = Inr session \<longrightarrow>
      (\<exists>reduce. session_PathProcessor session = Some reduce
         \<and> (\<forall>path. reduce path = Inr (after_last_slash path))
         \<and> reduce ''/2013-04-01/hostedzone/ZABCDEF123/rrset'' = Inr ''rrset''))
   \<and> (fst (newV2Config env awsConfig w) = Inr cfg \<longrightarrow>
      (\<exists>reduce. config_PathProcessor cfg = Some reduce
         \<and> (\<forall>path. reduce path = Inr (after_last_slash path))
         \<and> reduce ''/2013-04-01/hostedzone/ZABCDEF123/rrset'' = Inr ''rrset''))"
  using newSession_PathProcessor [of env awsConfig w session]
    newV2Config_PathProcessor [of env awsConfig w cfg]
    reducer_facts(1,2) [OF refl]
  by (intro conjI impI exI) blast+

theorem C7_path_label_reducer_witness:
  "\<exists>session cfg reduce reduce'.
     fst (newSession example_environment example_config example_world) = Inr session
     \<and> fst (newV2Config example_environment example_config example_world) = Inr cfg
     \<and> session_PathProcessor session = Some reduce
     \<and> config_PathProcessor cfg = Some reduce'
     \<and> reduce ''/2013-04-01/hostedzone/ZABCDEF123/rrset'' = Inr ''rrset''
     \<and> reduce' ''/2013-04-01/hostedzone/ZABCDEF123/rrset'' = Inr ''rrset''"
proof -
  obtain session where s: "fst (newSession example_environment example_config example_world) = Inr session"
    using example_session_builds by blast
  obtain cfg where c: "fst (newV2Config example_environment example_config example_world) = Inr cfg"
    using example_config_builds by blast
  from C7_path_label_reducer [of example_environment example_config example_world session cfg] s c
  show ?thesis
    by blast
qed

text \<open>
  Claim C9. The path callback never fails: splitting on "/" yields a non-empty list, so
  the last element is in bounds and every path gets a label; the empty path and every
  path that ends in "/" get the empty label.
\<close>

theorem C9_path_label_reducer_total:
  "strings_Split path ''/'' \<noteq> []
   \<and> (fst (newSession env awsConfig w) = Inr session \<longrightarrow>
      (\<exists>reduce. session_PathProcessor session = Some reduce
         \<and> (\<forall>p. \<exists>label. reduce p = Inr label)
         \<and> reduce [] = Inr []
         \<and> (\<forall>p. reduce (p @ ''/'') = Inr [])))
   \<and> (fst (newV2Config env awsConfig w) = Inr cfg \<longrightarrow>
      (\<exists>reduce. config_PathProcessor cfg = Some reduce
         \<and> (\<forall>p. \<exists>label. reduce p = Inr label)
         \<and> reduce [] = Inr []
         \<and> (\<forall>p. reduce (p @ ''/'') = Inr [])))"
  using newSession_PathProcessor [of env awsConfig w session]
    newV2Config_PathProcessor [of env awsConfig w cfg]
    reducer_facts(3,4,5) [OF refl] strings_Split_byte_nonempty [of path "CHR ''/''"]
  by (intro conjI impI exI) blast+

theorem C9_path_label_reducer_total_witness:
  "\<exists>session cfg reduce reduce'.
     fst (newSession example_environment example_config example_world) = Inr session
     \<and> fst (newV2Config example_environment example_config example_world) = Inr cfg
     \<and> session_PathProcessor session = Some reduce
     \<and> config_PathProcessor cfg = Some reduce'
     \<and> reduce ''/hostedzone/'' = Inr []
     \<and> reduce' [] = Inr []"
proof -
  obtain session where s: "fst (newSession example_environment example_config example_world) = Inr session"
    using example_session_builds by blast
  obtain cfg where c: "fst (newV2Config example_environment example_config example_world) = Inr cfg"
    using example_config_builds by blast
  from C9_path_label_reducer_total [of _ example_environment example_config example_world session cfg] s c
  obtain reduce reduce' where
    "session_PathProcessor session = Some reduce" "\<forall>p. reduce (p @ ''/'') = Inr []"
    "config_PathProcessor cfg = Some reduce'" "reduce' [] = Inr []"
    by blast
  moreover from this have "reduce (''/hostedzone'' @ ''/'') = Inr []"
    by blast
  ultimately show ?thesis
    using s c by auto
qed

lemma example_base_session:
  "\<exists>base. fst (session_NewSessionWithOptions example_environment
      (newSession_Options c) example_world) = Inr base"
  if "Profile c \<noteq> ''broken''"
  using that by (simp add: example_environment_def v1_defs)

lemma example_base_config:
  "\<exists>base. fst (config_LoadDefaultConfig example_environment
      (newV2Config_defaultOpts c) example_world) = Inr base"
  if "Profile c \<noteq> ''broken''"
  using that by (simp add: example_environment_def v2_defs)

section \<open>Credentials\<close>

lemma newSession_Credentials:
  assumes "fst (session_NewSessionWithOptions env (newSession_Options awsConfig) w) = Inr base"
  shows "\<exists>session. fst (newSession env awsConfig w) = Inr session
     \<and> Credentials (Config base) = Some (DefaultChain (Profile awsConfig))
     \<and> Credentials (Config session) =
         (if AssumeRole awsConfig \<noteq> [] then
            Some (StsCredentials
              \<lparr>RoleARN = AssumeRole awsConfig,
               ExternalID = (if AssumeRoleExternalID awsConfig \<noteq> []
                             then Some (AssumeRoleExternalID awsConfig) else None)\<rparr>)
          else Credentials (Config base))"
  using assms
  by (auto simp: newSession_def v1_defs Let_def split: option.splits)

lemma newV2Config_Credentials:
  assumes "fst (config_LoadDefaultConfig env (newV2Config_defaultOpts awsConfig) w) = Inr base"
  shows "\<exists>cfg. fst (newV2Config env awsConfig w) = Inr cfg
     \<and> v2_Credentials base = DefaultChainV2 (Profile awsConfig)
     \<and> v2_Credentials cfg =
         (if AssumeRole awsConfig \<noteq> [] then
            CredentialsCache (AssumeRoleProviderV2
              \<lparr>v2_RoleARN = AssumeRole awsConfig,
               v2_ExternalID = (if AssumeRoleExternalID awsConfig \<noteq> []
                                then Some (AssumeRoleExternalID awsConfig) else None)\<rparr>)
          else v2_Credentials base)"
  using assms
  by (auto simp: newV2Config_def v2_defs Let_def split: option.splits)

text \<open>
  Claim C3. When \<open>AssumeRole\<close> is non-empty, both builders install a role-assumption
  credentials provider for that role; its external ID is \<open>AssumeRoleExternalID\<close> when
  that is non-empty and is unset otherwise.
\<close>

theorem C3_role_assumption:
  assumes "AssumeRole awsConfig \<noteq> []"
  shows
    "(fst (session_NewSessionWithOptions env (newSession_Options awsConfig) w) = Inr base \<longrightarrow>
        (\<exists>session. fst (newSession env awsConfig w) = Inr session
           \<and> Credentials (Config session) =
               Some (StsCredentials
                 \<lparr>RoleARN = AssumeRole awsConfig,
                  ExternalID = (if AssumeRoleExternalID awsConfig \<noteq> []
                                then Some (AssumeRoleExternalID awsConfig) else None)\<rparr>)))
     \<and> (fst (config_LoadDefaultConfig env (newV2Config_defaultOpts awsConfig) w) = Inr base2 \<longrightarrow>
        (\<exists>cfg. fst (newV2Config env awsConfig w) = Inr cfg
           \<and> v2_Credentials cfg =
               CredentialsCache (AssumeRoleProviderV2
                 \<lparr>v2_RoleARN = AssumeRole awsConfig,
                  v2_ExternalID = (if AssumeRoleExternalID awsConfig \<noteq> []
                                   then Some (AssumeRoleExternalID awsConfig) else None)\<rparr>)))"
proof (intro conjI impI)
  assume "fst (session_NewSessionWithOptions env (newSession_Options awsConfig) w) = Inr base"
  from newSession_Credentials [OF this] assms
  show "\<exists>session. fst (newSession env awsConfig w) = Inr session
           \<and> Credentials (Config session) =
               Some (StsCredentials
                 \<lparr>RoleARN = AssumeRole awsConfig,
                  ExternalID = (if AssumeRoleExternalID awsConfig \<noteq> []
                                then Some (AssumeRoleExternalID awsConfig) else None)\<rparr>)"
    by auto
next
  assume "fst (config_LoadDefaultConfig env (newV2Config_defaultOpts awsConfig) w) = Inr base2"
  from newV2Config_Credentials [OF this] assms
  show "\<exists>cfg. fst (newV2Config env awsConfig w) = Inr cfg
           \<and> v2_Credentials cfg =
               CredentialsCache (AssumeRoleProviderV2
                 \<lparr>v2_RoleARN = AssumeRole awsConfig,
                  v2_ExternalID = (if AssumeRoleExternalID awsConfig \<noteq> []
                                   then Some (AssumeRoleExternalID awsConfig) else None)\<rparr>)"
    by auto
qed

theorem C3_role_assumption_witness:
  "AssumeRole example_config \<noteq> []
   \<and> (\<exists>session cfg.
        fst (newSession example_environment example_config example_world) = Inr session
        \<and> Credentials (Config session) =
            Some (StsCredentials
              \<lparr>RoleARN = ''arn:aws:iam::123456789012:role/dns'', ExternalID = Some ''ext-1''\<rparr>)
        \<and> fst (newV2Config example_environment example_config example_world) = Inr cfg
        \<and> v2_Credentials cfg =
            CredentialsCache (AssumeRoleProviderV2
              \<lparr>v2_RoleARN = ''arn:aws:iam::123456789012:role/dns'',
               v2_ExternalID = Some ''ext-1''\<rparr>))"
proof -
  have role: "AssumeRole example_config \<noteq> []"
    by (simp add: example_config_def)
  obtain base where b: "fst (session_NewSessionWithOptions example_environment
      (newSession_Options example_config) example_world) = Inr base"
    using example_base_session [of example_config] by (auto simp: example_config_def)
  obtain base2 where b2: "fst (config_LoadDefaultConfig example_environment
      (newV2Config_defaultOpts example_config) example_world) = Inr base2"
    using example_base_config [of example_config] by (auto simp: example_config_def)
  from C3_role_assumption [OF role, of example_environment example_world base base2] b b2
  show ?thesis
    by (auto simp: example_config_def)
qed

text \<open>
  Claim C4. When \<open>AssumeRole\<close> is empty, both builders leave the credentials of the
  handle as base construction resolved them, the SDK's default chain, whatever
  \<open>AssumeRoleExternalID\<close> is: no role-assumption provider is installed.
\<close>

theorem C4_default_credentials:
  assumes "AssumeRole awsConfig = []"
  shows
    "(fst (session_NewSessionWithOptions env (newSession_Options awsConfig) w) = Inr base \<longrightarrow>
        (\<exists>session. fst (newSession env awsConfig w) = Inr session
           \<and> Credentials (Config session) = Credentials (Config base)
           \<and> Credentials (Config session) = Some (DefaultChain (Profile awsConfig))))
     \<and> (fst (config_LoadDefaultConfig env (newV2Config_defaultOpts awsConfig) w) = Inr base2 \<longrightarrow>
        (\<exists>cfg. fst (newV2Config env awsConfig w) = Inr cfg
           \<and> v2_Credentials cfg = v2_Credentials base2
           \<and> v2_Credentials cfg = DefaultChainV2 (Profile awsConfig)))"
proof (intro conjI impI)
  assume "fst (session_NewSessionWithOptions env (newSession_Options awsConfig) w) = Inr base"
  from newSession_Credentials [OF this] assms
  show "\<exists>session. fst (newSession env awsConfig w) = Inr session
           \<and> Credentials (Config session) = Credentials (Config base)
           \<and> Credentials (Config session) = Some (DefaultChain (Profile awsConfig))"
    by auto
next
  assume "fst (config_LoadDefaultConfig env (newV2Config_defaultOpts awsConfig) w) = Inr base2"
  from newV2Config_Credentials [OF this] assms
  show "\<exists>cfg. fst (newV2Config env awsConfig w) = Inr cfg
           \<and> v2_Credentials cfg = v2_Credentials base2
           \<and> v2_Credentials cfg = DefaultChainV2 (Profile awsConfig)"
    by auto
qed

theorem C4_default_credentials_witness:
  "AssumeRole example_config_no_role = []
   \<and> AssumeRoleExternalID example_config_no_role \<noteq> []
   \<and> (\<exists>session cfg.
        fst (newSession example_environment example_config_no_role example_world) = Inr session
        \<and> Credentials (Config session) = Some (DefaultChain ''staging'')
        \<and> fst (newV2Config example_environment example_config_no_role example_world) = Inr cfg
        \<and> v2_Credentials cfg = DefaultChainV2 ''staging'')"
proof -
  have role: "AssumeRole example_config_no_role = []"
    by (simp add: example_config_no_role_def)
  obtain base where b: "fst (session_NewSessionWithOptions example_environment
      (newSession_Options example_config_no_role) example_world) = Inr base"
    using example_base_session [of example_config_no_role]
    by (auto simp: example_config_no_role_def)
  obtain base2 where b2: "fst (config_LoadDefaultConfig example_environment
      (newV2Config_defaultOpts example_config_no_role) example_world) = Inr base2"
    using example_base_config [of example_config_no_role]
    by (auto simp: example_config_no_role_def)
  from C4_default_credentials [OF role, of example_environment example_world base base2] b b2
  show ?thesis
    by (auto simp: example_config_no_role_def)
qed

section \<open>CreateSessions\<close>

lemma fst_newSession_cong:
  "allocated w = allocated v \<Longrightarrow> fst (newSession env c w) = fst (newSession env c v)"
  by (simp add: newSession_def v1_defs Let_def split: option.splits)

lemma newSession_addr:
  "fst (newSession env c w) = Inr session \<Longrightarrow> addr session = allocated w"
  by (auto simp: newSession_def v1_defs Let_def split: option.splits if_splits)

lemma CreateSessions_range_Cons:
  "newSession env (sessionConfig cfg profile) w = (Inr session, w1) \<Longrightarrow>
   CreateSessions_range env cfg (profile # rest) result w
     = CreateSessions_range env cfg rest (result(profile \<mapsto> session)) w1"
  by (simp add: sessionConfig_def)

lemma CreateSessions_range_Returned:
  assumes "\<forall>p\<in>set ps. session_failure env (newSession_Options (sessionConfig cfg p)) = None"
  shows "\<exists>m w'. CreateSessions_range env cfg ps result w = (Returned m, w')
     \<and> allocated w' = allocated w + length ps
     \<and> (\<forall>k. k \<notin> set ps \<longrightarrow> m k = result k)
     \<and> (\<forall>i<length ps. (\<forall>j. i < j \<and> j < length ps \<longrightarrow> ps ! j \<noteq> ps ! i) \<longrightarrow>
          (\<exists>s. fst (newSession env (sessionConfig cfg (ps ! i))
                       (w\<lparr>allocated := allocated w + i\<rparr>)) = Inr s
               \<and> m (ps ! i) = Some s))"
  using assms
proof (induction ps arbitrary: result w)
  case Nil
  then show ?case by simp
next
  case (Cons p rest)
  from Cons.prems obtain s w1 where
    build: "newSession env (sessionConfig cfg p) w = (Inr s, w1)"
    and alloc: "allocated w1 = Suc (allocated w)"
    using newSession_success [of env "sessionConfig cfg p" w] by auto
  from Cons.prems have "\<forall>p\<in>set rest. session_failure env (newSession_Options (sessionConfig cfg p)) = None"
    by simp
  from Cons.IH [OF this, of "result(p \<mapsto> s)" w1] obtain m w' where
    run: "CreateSessions_range env cfg rest (result(p \<mapsto> s)) w1 = (Returned m, w')"
    and alloc': "allocated w' = allocated w1 + length rest"
    and frame: "\<forall>k. k \<notin> set rest \<longrightarrow> m k = (result(p \<mapsto> s)) k"
    and lasts: "\<forall>i<length rest. (\<forall>j. i < j \<and> j < length rest \<longrightarrow> rest ! j \<noteq> rest ! i) \<longrightarrow>
          (\<exists>s'. fst (newSession env (sessionConfig cfg (rest ! i))
                       (w1\<lparr>allocated := allocated w1 + i\<rparr>)) = Inr s'
               \<and> m (rest ! i) = Some s')"
    by blast
  have 1: "CreateSessions_range env cfg (p # rest) result w = (Returned m, w')"
    using CreateSessions_range_Cons [OF build] run by simp
  have 2: "allocated w' = allocated w + length (p # rest)"
    using alloc alloc' by simp
  have 3: "\<forall>k. k \<notin> set (p # rest) \<longrightarrow> m k = result k"
    using frame by simp
  have 4: "\<exists>s'. fst (newSession env (sessionConfig cfg ((p # rest) ! i))
                       (w\<lparr>allocated := allocated w + i\<rparr>)) = Inr s'
               \<and> m ((p # rest) ! i) = Some s'"
    if i: "i < length (p # rest)"
    and last: "\<forall>j. i < j \<and> j < length (p # rest) \<longrightarrow> (p # rest) ! j \<noteq> (p # rest) ! i"
    for i
  proof (cases i)
    case 0
    have "p \<notin> set rest"
    proof
      assume "p \<in> set rest"
      then obtain j where "j < length rest" "rest ! j = p"
        by (auto simp: in_set_conv_nth)
      with last 0 show False
        by (auto dest: spec [of _ "Suc j"])
    qed
    with frame have "m p = Some s"
      by simp
    moreover have "fst (newSession env (sessionConfig cfg p) (w\<lparr>allocated := allocated w + 0\<rparr>)) = Inr s"
      using build by simp
    ultimately show ?thesis
      using 0 by simp
  next
    case (Suc i')
    with i have i': "i' < length rest"
      by simp
    have "\<forall>j. i' < j \<and> j < length rest \<longrightarrow> rest ! j \<noteq> rest ! i'"
    proof (intro allI impI)
      fix j assume "i' < j \<and> j < length rest"
      with last [rule_format, of "Suc j"] Suc show "rest ! j \<noteq> rest ! i'"
        by simp
    qed
    with lasts i' obtain s' where
      s': "fst (newSession env (sessionConfig cfg (rest ! i'))
                       (w1\<lparr>allocated := allocated w1 + i'\<rparr>)) = Inr s'"
      and m: "m (rest ! i') = Some s'"
      by blast
    have "fst (newSession env (sessionConfig cfg (rest ! i')) (w\<lparr>allocated := allocated w + i\<rparr>))
        = fst (newSession env (sessionConfig cfg (rest ! i')) (w1\<lparr>allocated := allocated w1 + i'\<rparr>))"
      by (rule fst_newSession_cong) (simp add: alloc Suc)
    with s' m Suc show ?thesis
      by simp
  qed
  from 1 2 3 4 show ?case
    by blast
qed

lemma last_occurrence:
  assumes "k \<in> set ps"
  shows "\<exists>i<length ps. ps ! i = k \<and> (\<forall>j. i < j \<and> j < length ps \<longrightarrow> ps ! j \<noteq> ps ! i)"
  using assms
proof (induction ps)
  case Nil
  then show ?case by simp
next
  case (Cons p rest)
  show ?case
  proof (cases "k \<in> set rest")
    case True
    with Cons.IH obtain i where "i < length rest" "rest ! i = k"
      "\<forall>j. i < j \<and> j < length rest \<longrightarrow> rest ! j \<noteq> rest ! i"
      by blast
    then have "Suc i < length (p # rest) \<and> (p # rest) ! Suc i = k
        \<and> (\<forall>j. Suc i < j \<and> j < length (p # rest) \<longrightarrow> (p # rest) ! j \<noteq> (p # rest) ! Suc i)"
      by (auto simp: nth_Cons split: nat.splits)
    then show ?thesis
      by blast
  next
    case False
    with Cons.prems have "k = p"
      by simp
    with False have "0 < length (p # rest) \<and> (p # rest) ! 0 = k
        \<and> (\<forall>j. 0 < j \<and> j < length (p # rest) \<longrightarrow> (p # rest) ! j \<noteq> (p # rest) ! 0)"
      by (auto simp: nth_Cons split: nat.splits)
    then show ?thesis
      by blast
  qed
qed

lemma CreateSessions_range_dom:
  assumes "CreateSessions_range env cfg ps Map.empty w = (Returned m, w')"
    and "\<forall>k. k \<notin> set ps \<longrightarrow> m k = None"
    and "\<forall>i<length ps. (\<forall>j. i < j \<and> j < length ps \<longrightarrow> ps ! j \<noteq> ps ! i) \<longrightarrow>
          (\<exists>s. P i s \<and> m (ps ! i) = Some s)"
  shows "dom m = set ps"
proof
  show "dom m \<subseteq> set ps"
    using assms(2) by (auto simp: dom_def)
  show "set ps \<subseteq> dom m"
  proof
    fix k assume "k \<in> set ps"
    from last_occurrence [OF this] assms(3) show "k \<in> dom m"
      by (auto simp: dom_def)
  qed
qed

lemma CreateSessions_default:
  assumes "AWSProfiles cfg = [] \<or> AWSProfiles cfg = ['''']"
  shows "CreateSessions env cfg w =
     (case newSession env (sessionConfig cfg []) w of
        (Inl err, w') \<Rightarrow> logrus_Fatal err w'
      | (Inr session, w') \<Rightarrow> (Returned [defaultAWSProfile env \<mapsto> session], w'))"
  using assms by (auto simp: CreateSessions_def sessionConfig_def)

lemma CreateSessions_profiles:
  assumes "AWSProfiles cfg \<noteq> []" and "AWSProfiles cfg \<noteq> ['''']"
  shows "CreateSessions env cfg w = CreateSessions_range env cfg (AWSProfiles cfg) Map.empty w"
  using assms by (cases "AWSProfiles cfg") (auto simp: CreateSessions_def Let_def)

lemma CreateDefaultSession_unfold:
  "CreateDefaultSession env cfg w =
     (case newSession env (sessionConfig cfg []) w of
        (Inl err, w') \<Rightarrow> logrus_Fatal err w'
      | (Inr session, w') \<Rightarrow> (Returned session, w'))"
  by (simp add: CreateDefaultSession_def sessionConfig_def)

lemma example_profiles_build:
  "''broken'' \<notin> set ps \<Longrightarrow>
   \<forall>p\<in>set (AWSProfiles (example_dns_config ps)).
     session_failure example_environment
       (newSession_Options (sessionConfig (example_dns_config ps) p)) = None"
  by (auto simp: example_dns_config_def example_environment_def newSession_Options_def
        sessionConfig_def)

text \<open>
  Claim C5. When the profile list is empty, or holds only the empty string,
  \<open>CreateSessions\<close> returns a map with exactly one entry, keyed by the default key,
  whose session is built as \<open>CreateDefaultSession\<close> builds it (\<open>Profile\<close> left empty);
  where that build fails, both exit the same way.
\<close>

theorem C5_no_profiles:
  assumes "AWSProfiles cfg = [] \<or> AWSProfiles cfg = ['''']"
  shows
    "CreateSessions env cfg w =
       (case CreateDefaultSession env cfg w of
          (Returned session, w') \<Rightarrow> (Returned [defaultAWSProfile env \<mapsto> session], w')
        | (Exited code, w') \<Rightarrow> (Exited code, w'))
     \<and> (session_failure env (newSession_Options (sessionConfig cfg [])) = None \<longrightarrow>
          (\<exists>session w'. newSession env (sessionConfig cfg []) w = (Inr session, w')
             \<and> Profile (sessionConfig cfg []) = []
             \<and> CreateSessions env cfg w = (Returned [defaultAWSProfile env \<mapsto> session], w')
             \<and> dom [defaultAWSProfile env \<mapsto> session] = {defaultAWSProfile env}
             \<and> card (dom [defaultAWSProfile env \<mapsto> session]) = 1))"
proof (intro conjI impI)
  show "CreateSessions env cfg w =
       (case CreateDefaultSession env cfg w of
          (Returned session, w') \<Rightarrow> (Returned [defaultAWSProfile env \<mapsto> session], w')
        | (Exited code, w') \<Rightarrow> (Exited code, w'))"
    unfolding CreateSessions_default [OF assms] CreateDefaultSession_unfold
    by (simp add: logrus_Fatal_def split: prod.splits sum.splits)
next
  assume "session_failure env (newSession_Options (sessionConfig cfg [])) = None"
  from newSession_success [OF this, of w] obtain session w' where
    "newSession env (sessionConfig cfg []) w = (Inr session, w')"
    by blast
  then show "\<exists>session w'. newSession env (sessionConfig cfg []) w = (Inr session, w')
             \<and> Profile (sessionConfig cfg []) = []
             \<and> CreateSessions env cfg w = (Returned [defaultAWSProfile env \<mapsto> session], w')
             \<and> dom [defaultAWSProfile env \<mapsto> session] = {defaultAWSProfile env}
             \<and> card (dom [defaultAWSProfile env \<mapsto> session]) = 1"
    unfolding CreateSessions_default [OF assms]
    by (simp add: sessionConfig_def)
qed

theorem C5_no_profiles_witness:
  "AWSProfiles (example_dns_config ['''']) = ['''']
   \<and> (\<exists>session w'.
        CreateSessions example_environment (example_dns_config ['''']) example_world
          = (Returned [''default'' \<mapsto> session], w')
        \<and> CreateDefaultSession example_environment (example_dns_config ['''']) example_world
          = (Returned session, w'))"
proof -
  have p: "AWSProfiles (example_dns_config ['''']) = [] \<or> AWSProfiles (example_dns_config ['''']) = ['''']"
    by (simp add: example_dns_config_def)
  have ok: "session_failure example_environment
      (newSession_Options (sessionConfig (example_dns_config ['''']) [])) = None"
    by (simp add: example_environment_def newSession_Options_def sessionConfig_def)
  from C5_no_profiles [OF p, of example_environment example_world] ok
  obtain session w' where
    "newSession example_environment (sessionConfig (example_dns_config ['''']) []) example_world
       = (Inr session, w')"
    "CreateSessions example_environment (example_dns_config ['''']) example_world
       = (Returned [defaultAWSProfile example_environment \<mapsto> session], w')"
    by blast
  then show ?thesis
    by (auto simp: CreateDefaultSession_unfold example_dns_config_def example_environment_def)
qed



text \<open>
  Claim C10. With duplicate names in the profile list, \<open>CreateSessions\<close> still returns
  one entry per distinct name. It builds a session for every occurrence, in list order
  (the i-th build allocates the i-th session), and the entry under a name is the
  session built for the last occurrence of the name.
\<close>

theorem C10_duplicate_profiles:
  assumes "AWSProfiles cfg \<noteq> []" and "AWSProfiles cfg \<noteq> ['''']"
    and "\<forall>p\<in>set (AWSProfiles cfg).
           session_failure env (newSession_Options (sessionConfig cfg p)) = None"
  shows "\<exists>m w'. CreateSessions env cfg w = (Returned m, w')
     \<and> dom m = set (AWSProfiles cfg)
     \<and> card (dom m) = card (set (AWSProfiles cfg))
     \<and> allocated w' = allocated w + length (AWSProfiles cfg)
     \<and> (\<forall>i<length (AWSProfiles cfg).
          \<exists>session. fst (newSession env (sessionConfig cfg (AWSProfiles cfg ! i))
                            (w\<lparr>allocated := allocated w + i\<rparr>)) = Inr session
             \<and> addr session = allocated w + i
             \<and> ((\<forall>j. i < j \<and> j < length (AWSProfiles cfg)
                        \<longrightarrow> AWSProfiles cfg ! j \<noteq> AWSProfiles cfg ! i)
                  \<longrightarrow> m (AWSProfiles cfg ! i) = Some session))"
proof -
  define ps where "ps = AWSProfiles cfg"
  from CreateSessions_range_Returned [OF assms(3), of Map.empty w] obtain m w' where
    run: "CreateSessions_range env cfg ps Map.empty w = (Returned m, w')"
    and alloc: "allocated w' = allocated w + length ps"
    and frame: "\<forall>k. k \<notin> set ps \<longrightarrow> m k = None"
    and lasts: "\<forall>i<length ps. (\<forall>j. i < j \<and> j < length ps \<longrightarrow> ps ! j \<noteq> ps ! i) \<longrightarrow>
          (\<exists>s. fst (newSession env (sessionConfig cfg (ps ! i))
                       (w\<lparr>allocated := allocated w + i\<rparr>)) = Inr s
               \<and> m (ps ! i) = Some s)"
    unfolding ps_def by auto
  have dom: "dom m = set ps"
    using CreateSessions_range_dom [OF run frame lasts] .
  have 1: "CreateSessions env cfg w = (Returned m, w')"
    using CreateSessions_profiles [OF assms(1,2)] run by (simp add: ps_def)
  have 2: "\<exists>session. fst (newSession env (sessionConfig cfg (ps ! i))
                            (w\<lparr>allocated := allocated w + i\<rparr>)) = Inr session
             \<and> addr session = allocated w + i
             \<and> ((\<forall>j. i < j \<and> j < length ps \<longrightarrow> ps ! j \<noteq> ps ! i)
                  \<longrightarrow> m (ps ! i) = Some session)"
    if i: "i < length ps" for i
  proof -
    from i assms(3) have "session_failure env (newSession_Options (sessionConfig cfg (ps ! i))) = None"
      by (simp add: ps_def)
    from newSession_success [OF this, of "w\<lparr>allocated := allocated w + i\<rparr>"]
    obtain session where
      s: "fst (newSession env (sessionConfig cfg (ps ! i)) (w\<lparr>allocated := allocated w + i\<rparr>))
            = Inr session"
      and "addr session = allocated w + i"
      by auto
    moreover have "m (ps ! i) = Some session"
      if "\<forall>j. i < j \<and> j < length ps \<longrightarrow> ps ! j \<noteq> ps ! i"
      using lasts i that s by auto
    ultimately show ?thesis
      by blast
  qed
  from 1 2 dom alloc show ?thesis
    unfolding ps_def by auto
qed

theorem C10_duplicate_profiles_witness:
  "AWSProfiles (example_dns_config [''a'', ''b'', ''a'']) = [''a'', ''b'', ''a'']
   \<and> (\<exists>m w' session.
        CreateSessions example_environment (example_dns_config [''a'', ''b'', ''a''])
          example_world = (Returned m, w')
        \<and> dom m = {''a'', ''b''}
        \<and> card (dom m) = 2
        \<and> allocated w' = 3
        \<and> m ''a'' = Some session
        \<and> addr session = 2)"
proof -
  let ?cfg = "example_dns_config [''a'', ''b'', ''a'']"
  have ps: "AWSProfiles ?cfg = [''a'', ''b'', ''a'']"
    by (simp add: example_dns_config_def)
  have a: "AWSProfiles ?cfg \<noteq> []" "AWSProfiles ?cfg \<noteq> ['''']"
    by (simp_all add: ps)
  have ok: "\<forall>p\<in>set (AWSProfiles ?cfg).
      session_failure example_environment (newSession_Options (sessionConfig ?cfg p)) = None"
    by (rule example_profiles_build) simp
  from C10_duplicate_profiles [OF a ok, of example_world] obtain m w' where
    run: "CreateSessions example_environment ?cfg example_world = (Returned m, w')"
    and dom: "dom m = set (AWSProfiles ?cfg)"
    and card: "card (dom m) = card (set (AWSProfiles ?cfg))"
    and alloc: "allocated w' = allocated example_world + length (AWSProfiles ?cfg)"
    and each: "\<forall>i<length (AWSProfiles ?cfg).
          \<exists>session. fst (newSession example_environment (sessionConfig ?cfg (AWSProfiles ?cfg ! i))
                            (example_world\<lparr>allocated := allocated example_world + i\<rparr>)) = Inr session
             \<and> addr session = allocated example_world + i
             \<and> ((\<forall>j. i < j \<and> j < length (AWSProfiles ?cfg)
                        \<longrightarrow> AWSProfiles ?cfg ! j \<noteq> AWSProfiles ?cfg ! i)
                  \<longrightarrow> m (AWSProfiles ?cfg ! i) = Some session)"
    by blast
  from each [rule_format, of 2] obtain session where
    s: "addr session = 2" "m ''a'' = Some session"
    by (auto simp: ps example_world_def numeral_2_eq_2)
  have d: "dom m = {''a'', ''b''}"
    using dom by (auto simp: ps)
  have c: "card (dom m) = 2"
    unfolding d by simp
  have al: "allocated w' = 3"
    using alloc by (simp add: ps example_world_def)
  from ps run d c al s show ?thesis
    by blast
qed

section \<open>Construction failures\<close>

lemma CreateDefaultV2Config_unfold:
  "CreateDefaultV2Config env cfg w =
     (case newV2Config env (sessionConfig cfg []) w of
        (Inl err, w') \<Rightarrow> logrus_Fatal err w'
      | (Inr result, w') \<Rightarrow> (Returned result, w'))"
  by (simp add: CreateDefaultV2Config_def sessionConfig_def)

lemma CreateSessions_range_Exited:
  assumes "\<exists>p\<in>set ps. session_failure env (newSession_Options (sessionConfig cfg p)) \<noteq> None"
  shows "\<exists>w' p err l. CreateSessions_range env cfg ps result w = (Exited 1, w')
     \<and> p \<in> set ps
     \<and> session_failure env (newSession_Options (sessionConfig cfg p)) = Some err
     \<and> log w' = l @ [Fatal (''instantiating AWS session: '' @ Error err)]"
  using assms
proof (induction ps arbitrary: result w)
  case Nil
  then show ?case by simp
next
  case (Cons p rest)
  show ?case
  proof (cases "session_failure env (newSession_Options (sessionConfig cfg p))")
    case (Some err)
    from newSession_failure [OF Some, of w]
    have "CreateSessions_range env cfg (p # rest) result w
        = (Exited 1, w\<lparr>log := log w @ [Fatal (''instantiating AWS session: '' @ Error err)]\<rparr>)"
      by (simp add: sessionConfig_def logrus_Fatal_def)
    with Some show ?thesis
      by (intro exI [of _ "w\<lparr>log := log w @ [Fatal (''instantiating AWS session: '' @ Error err)]\<rparr>"]
            exI [of _ p] exI [of _ err] exI [of _ "log w"]) simp
  next
    case None
    from newSession_success [OF None, of w] obtain s w1 where
      build: "newSession env (sessionConfig cfg p) w = (Inr s, w1)"
      by blast
    from None Cons.prems have
      "\<exists>p\<in>set rest. session_failure env (newSession_Options (sessionConfig cfg p)) \<noteq> None"
      by auto
    from Cons.IH [OF this, of "result(p \<mapsto> s)" w1] obtain w' q err l where
      "CreateSessions_range env cfg rest (result(p \<mapsto> s)) w1 = (Exited 1, w')"
      "q \<in> set rest"
      "session_failure env (newSession_Options (sessionConfig cfg q)) = Some err"
      "log w' = l @ [Fatal (''instantiating AWS session: '' @ Error err)]"
      by blast
    with CreateSessions_range_Cons [OF build, of rest result] show ?thesis
      by (intro exI [of _ w'] exI [of _ q] exI [of _ err] exI [of _ l]) simp
  qed
qed

lemma CreateSessions_Returned_dom:
  assumes "CreateSessions env cfg w = (Returned m, w')"
  shows "dom m = (if AWSProfiles cfg = [] \<or> AWSProfiles cfg = ['''']
                  then {defaultAWSProfile env} else set (AWSProfiles cfg))"
proof (cases "AWSProfiles cfg = [] \<or> AWSProfiles cfg = ['''']")
  case True
  with assms show ?thesis
    unfolding CreateSessions_default [OF True]
    by (auto simp: logrus_Fatal_def split: prod.splits sum.splits if_splits)
next
  case False
  then have run: "CreateSessions_range env cfg (AWSProfiles cfg) Map.empty w = (Returned m, w')"
    using assms CreateSessions_profiles [of cfg env w] by simp
  have ok: "\<forall>p\<in>set (AWSProfiles cfg).
      session_failure env (newSession_Options (sessionConfig cfg p)) = None"
  proof (rule ccontr)
    assume "\<not> ?thesis"
    then have "\<exists>p\<in>set (AWSProfiles cfg).
        session_failure env (newSession_Options (sessionConfig cfg p)) \<noteq> None"
      by blast
    from CreateSessions_range_Exited [OF this, of Map.empty w] run show False
      by auto
  qed
  from CreateSessions_range_Returned [OF ok, of Map.empty w] run
  have frame: "\<forall>k. k \<notin> set (AWSProfiles cfg) \<longrightarrow> m k = None"
    and lasts: "\<forall>i<length (AWSProfiles cfg).
          (\<forall>j. i < j \<and> j < length (AWSProfiles cfg)
                 \<longrightarrow> AWSProfiles cfg ! j \<noteq> AWSProfiles cfg ! i) \<longrightarrow>
          (\<exists>s. fst (newSession env (sessionConfig cfg (AWSProfiles cfg ! i))
                       (w\<lparr>allocated := allocated w + i\<rparr>)) = Inr s
               \<and> m (AWSProfiles cfg ! i) = Some s)"
    by auto
  from CreateSessions_range_dom [OF run frame lasts] False show ?thesis
    by simp
qed

text \<open>
  Claim C8. When the SDK fails base construction, \<open>newSession\<close> and \<open>newV2Config\<close>
  return no handle but an error that wraps the SDK's: its message is a descriptive
  prefix followed by the original message. \<open>CreateDefaultSession\<close>,
  \<open>CreateDefaultV2Config\<close> and \<open>CreateSessions\<close> then log that message at fatal level
  and exit the process. \<open>CreateSessions\<close> never returns a partial map: a map it
  returns has every requested profile (or the default key) as a key.
\<close>

theorem C8_construction_failure:
  "(session_failure env (newSession_Options awsConfig) = Some err \<longrightarrow>
      newSession env awsConfig w = (Inl (Errorf_w ''instantiating AWS session: '' err), w)
      \<and> Error (Errorf_w ''instantiating AWS session: '' err)
          = ''instantiating AWS session: '' @ Error err
      \<and> Unwrap (Errorf_w ''instantiating AWS session: '' err) = Some err)
   \<and> (config_failure env (newV2Config_LoadOptions awsConfig) = Some err \<longrightarrow>
      newV2Config env awsConfig w = (Inl (Errorf_w ''instantiating AWS config: '' err), w)
      \<and> Error (Errorf_w ''instantiating AWS config: '' err)
          = ''instantiating AWS config: '' @ Error err
      \<and> Unwrap (Errorf_w ''instantiating AWS config: '' err) = Some err)
   \<and> (session_failure env (newSession_Options (sessionConfig cfg [])) = Some err \<longrightarrow>
      CreateDefaultSession env cfg w
        = (Exited 1, w\<lparr>log := log w @ [Fatal (''instantiating AWS session: '' @ Error err)]\<rparr>))
   \<and> (config_failure env (newV2Config_LoadOptions (sessionConfig cfg [])) = Some err \<longrightarrow>
      CreateDefaultV2Config env cfg w
        = (Exited 1, w\<lparr>log := log w @ [Fatal (''instantiating AWS config: '' @ Error err)]\<rparr>))
   \<and> ((AWSProfiles cfg = [] \<or> AWSProfiles cfg = [''''])
        \<and> session_failure env (newSession_Options (sessionConfig cfg [])) = Some err \<longrightarrow>
      CreateSessions env cfg w
        = (Exited 1, w\<lparr>log := log w @ [Fatal (''instantiating AWS session: '' @ Error err)]\<rparr>))
   \<and> (AWSProfiles cfg \<noteq> [] \<and> AWSProfiles cfg \<noteq> ['''']
        \<and> (\<exists>p\<in>set (AWSProfiles cfg).
              session_failure env (newSession_Options (sessionConfig cfg p)) \<noteq> None) \<longrightarrow>
      (\<exists>w' p err' l. CreateSessions env cfg w = (Exited 1, w')
         \<and> p \<in> set (AWSProfiles cfg)
         \<and> session_failure env (newSession_Options (sessionConfig cfg p)) = Some err'
         \<and> log w' = l @ [Fatal (''instantiating AWS session: '' @ Error err')]))
   \<and> (CreateSessions env cfg w = (Returned m, w'') \<longrightarrow>
      dom m = (if AWSProfiles cfg = [] \<or> AWSProfiles cfg = ['''']
               then {defaultAWSProfile env} else set (AWSProfiles cfg)))"
proof (intro conjI impI)
  assume "session_failure env (newSession_Options awsConfig) = Some err"
  then show "newSession env awsConfig w = (Inl (Errorf_w ''instantiating AWS session: '' err), w)"
    by (rule newSession_failure)
next
  assume "config_failure env (newV2Config_LoadOptions awsConfig) = Some err"
  then show "newV2Config env awsConfig w = (Inl (Errorf_w ''instantiating AWS config: '' err), w)"
    by (rule newV2Config_failure)
next
  assume "session_failure env (newSession_Options (sessionConfig cfg [])) = Some err"
  from newSession_failure [OF this, of w]
  show "CreateDefaultSession env cfg w
        = (Exited 1, w\<lparr>log := log w @ [Fatal (''instantiating AWS session: '' @ Error err)]\<rparr>)"
    by (simp add: CreateDefaultSession_unfold logrus_Fatal_def)
next
  assume "config_failure env (newV2Config_LoadOptions (sessionConfig cfg [])) = Some err"
  from newV2Config_failure [OF this, of w]
  show "CreateDefaultV2Config env cfg w
        = (Exited 1, w\<lparr>log := log w @ [Fatal (''instantiating AWS config: '' @ Error err)]\<rparr>)"
    by (simp add: CreateDefaultV2Config_unfold logrus_Fatal_def)
next
  assume a: "(AWSProfiles cfg = [] \<or> AWSProfiles cfg = [''''])
        \<and> session_failure env (newSession_Options (sessionConfig cfg [])) = Some err"
  then have "newSession env (sessionConfig cfg []) w
      = (Inl (Errorf_w ''instantiating AWS session: '' err), w)"
    by (intro newSession_failure) simp
  with a show "CreateSessions env cfg w
        = (Exited 1, w\<lparr>log := log w @ [Fatal (''instantiating AWS session: '' @ Error err)]\<rparr>)"
    by (simp add: CreateSessions_default logrus_Fatal_def)
next
  assume a: "AWSProfiles cfg \<noteq> [] \<and> AWSProfiles cfg \<noteq> ['''']
        \<and> (\<exists>p\<in>set (AWSProfiles cfg).
              session_failure env (newSession_Options (sessionConfig cfg p)) \<noteq> None)"
  then have "CreateSessions env cfg w = CreateSessions_range env cfg (AWSProfiles cfg) Map.empty w"
    by (intro CreateSessions_profiles) simp_all
  moreover from a have "\<exists>p\<in>set (AWSProfiles cfg).
              session_failure env (newSession_Options (sessionConfig cfg p)) \<noteq> None"
    by simp
  note CreateSessions_range_Exited [OF this, of Map.empty w]
  ultimately show "\<exists>w' p err' l. CreateSessions env cfg w = (Exited 1, w')
         \<and> p \<in> set (AWSProfiles cfg)
         \<and> session_failure env (newSession_Options (sessionConfig cfg p)) = Some err'
         \<and> log w' = l @ [Fatal (''instantiating AWS session: '' @ Error err')]"
    by simp
next
  assume "CreateSessions env cfg w = (Returned m, w'')"
  then show "dom m = (if AWSProfiles cfg = [] \<or> AWSProfiles cfg = ['''']
               then {defaultAWSProfile env} else set (AWSProfiles cfg))"
    by (rule CreateSessions_Returned_dom)
qed simp_all

theorem C8_construction_failure_witness:
  "newSession failing_environment example_config example_world
     = (Inl (Errorf_w ''instantiating AWS session: '' (SDKError ''no such file'')), example_world)
   \<and> Error (Errorf_w ''instantiating AWS session: '' (SDKError ''no such file''))
     = ''instantiating AWS session: no such file''
   \<and> newV2Config failing_environment example_config example_world
     = (Inl (Errorf_w ''instantiating AWS config: '' (SDKError ''no such file'')), example_world)
   \<and> CreateDefaultSession failing_environment (example_dns_config []) example_world
     = (Exited 1, \<lparr>log = [Fatal ''instantiating AWS session: no such file''], allocated = 0\<rparr>)
   \<and> CreateDefaultV2Config failing_environment (example_dns_config []) example_world
     = (Exited 1, \<lparr>log = [Fatal ''instantiating AWS config: no such file''], allocated = 0\<rparr>)
   \<and> CreateSessions failing_environment (example_dns_config []) example_world
     = (Exited 1, \<lparr>log = [Fatal ''instantiating AWS session: no such file''], allocated = 0\<rparr>)
   \<and> (\<exists>w' l. CreateSessions example_environment
                  (example_dns_config [''staging'', ''broken'', ''prod'']) example_world
                = (Exited 1, w')
          \<and> log w' = l @ [Fatal ''instantiating AWS session: failed to load shared config file''])
   \<and> (\<exists>m w'. CreateSessions example_environment (example_dns_config [''staging'']) example_world
                = (Returned m, w')
          \<and> dom m = {''staging''})"
proof -
  have f1: "session_failure failing_environment opts = Some (SDKError ''no such file'')" for opts
    by (simp add: failing_environment_def)
  have f2: "config_failure failing_environment lo = Some (SDKError ''no such file'')" for lo
    by (simp add: failing_environment_def)
  have p0: "AWSProfiles (example_dns_config ps) = ps" for ps
    by (simp add: example_dns_config_def)
  note A = C8_construction_failure [where env = failing_environment and awsConfig = example_config
      and err = "SDKError ''no such file''" and w = example_world and cfg = "example_dns_config []"
      and m = Map.empty and w'' = example_world]
  have a1: "newSession failing_environment example_config example_world
     = (Inl (Errorf_w ''instantiating AWS session: '' (SDKError ''no such file'')), example_world)"
    using A [THEN conjunct1, THEN mp, OF f1] by (rule conjunct1)
  have a2: "newV2Config failing_environment example_config example_world
     = (Inl (Errorf_w ''instantiating AWS config: '' (SDKError ''no such file'')), example_world)"
    using A [THEN conjunct2, THEN conjunct1, THEN mp, OF f2] by (rule conjunct1)
  have a3: "CreateDefaultSession failing_environment (example_dns_config []) example_world
     = (Exited 1, example_world\<lparr>log := log example_world
          @ [Fatal (''instantiating AWS session: '' @ Error (SDKError ''no such file''))]\<rparr>)"
    by (rule A [THEN conjunct2, THEN conjunct2, THEN conjunct1, THEN mp, OF f1])
  have a4: "CreateDefaultV2Config failing_environment (example_dns_config []) example_world
     = (Exited 1, example_world\<lparr>log := log example_world
          @ [Fatal (''instantiating AWS config: '' @ Error (SDKError ''no such file''))]\<rparr>)"
    by (rule A [THEN conjunct2, THEN conjunct2, THEN conjunct2, THEN conjunct1, THEN mp, OF f2])
  have "(AWSProfiles (example_dns_config []) = [] \<or> AWSProfiles (example_dns_config []) = [''''])
      \<and> session_failure failing_environment
            (newSession_Options (sessionConfig (example_dns_config []) []))
          = Some (SDKError ''no such file'')"
    by (simp add: p0 f1)
  note a5 = A [THEN conjunct2, THEN conjunct2, THEN conjunct2, THEN conjunct2, THEN conjunct1,
      THEN mp, OF this]
  let ?cfg = "example_dns_config [''staging'', ''broken'', ''prod'']"
  have only: "err' = SDKError ''failed to load shared config file''"
    if "session_failure example_environment opts = Some err'" for opts err'
    using that by (simp add: example_environment_def split: if_splits)
  have "AWSProfiles ?cfg \<noteq> [] \<and> AWSProfiles ?cfg \<noteq> ['''']
        \<and> (\<exists>p\<in>set (AWSProfiles ?cfg).
              session_failure example_environment (newSession_Options (sessionConfig ?cfg p)) \<noteq> None)"
    by (simp add: p0 example_environment_def newSession_Options_def sessionConfig_def)
  note C8_construction_failure [where env = example_environment and w = example_world
      and cfg = ?cfg and awsConfig = example_config and err = "SDKError []"
      and m = Map.empty and w'' = example_world,
      THEN conjunct2, THEN conjunct2, THEN conjunct2, THEN conjunct2, THEN conjunct2,
      THEN conjunct1, THEN mp, OF this]
  then obtain w' p err' l where
    run: "CreateSessions example_environment ?cfg example_world = (Exited 1, w')"
    and fail: "session_failure example_environment (newSession_Options (sessionConfig ?cfg p)) = Some err'"
    and lg: "log w' = l @ [Fatal (''instantiating AWS session: '' @ Error err')]"
    by blast
  from only [OF fail] lg
  have "log w' = l @ [Fatal ''instantiating AWS session: failed to load shared config file'']"
    by simp
  with run have b: "\<exists>w' l. CreateSessions example_environment ?cfg example_world = (Exited 1, w')
          \<and> log w' = l @ [Fatal ''instantiating AWS session: failed to load shared config file'']"
    by blast
  let ?one = "example_dns_config [''staging'']"
  have "\<forall>p\<in>set [''staging''].
      session_failure example_environment (newSession_Options (sessionConfig ?one p)) = None"
    by (simp add: example_environment_def newSession_Options_def sessionConfig_def)
  from CreateSessions_range_Returned [OF this, of Map.empty example_world]
  obtain m w1 where "CreateSessions_range example_environment ?one [''staging''] Map.empty
      example_world = (Returned m, w1)"
    by blast
  then have run1: "CreateSessions example_environment ?one example_world = (Returned m, w1)"
    using CreateSessions_profiles [of ?one example_environment example_world]
    by (simp add: p0)
  note C8_construction_failure [where env = example_environment and w = example_world
      and cfg = ?one and m = m and w'' = w1 and awsConfig = example_config
      and err = "SDKError []",
      THEN conjunct2, THEN conjunct2, THEN conjunct2, THEN conjunct2, THEN conjunct2,
      THEN conjunct2, THEN mp, OF run1]
  then have "dom m = {''staging''}"
    by (simp add: p0)
  with run1 have c: "\<exists>m w'. CreateSessions example_environment ?one example_world = (Returned m, w')
          \<and> dom m = {''staging''}"
    by blast
  have e: "Error (Errorf_w ''instantiating AWS session: '' (SDKError ''no such file''))
     = ''instantiating AWS session: no such file''"
    by simp
  have w0: "example_world\<lparr>log := log example_world @ [Fatal (pre @ Error (SDKError ''no such file''))]\<rparr>
      = \<lparr>log = [Fatal (pre @ ''no such file'')], allocated = 0\<rparr>" for pre
    by (simp add: example_world_def)
  show ?thesis
    using a1 e a2 a3 [unfolded w0] a4 [unfolded w0] a5 [unfolded w0] b c
    by (intro conjI) simp_all
qed

section \<open>The two SDK generations\<close>

lemma newSession_MaxRetries:
  "fst (newSession env awsConfig w) = Inr session \<Longrightarrow>
   MaxRetries (Config session) = Some (APIRetries awsConfig)"
  by (auto simp: newSession_def v1_defs Let_def split: option.splits if_splits)

lemma newV2Config_Retryer:
  "fst (newV2Config env awsConfig w) = Inr cfg \<Longrightarrow>
   Retryer cfg = Some (retry_AddWithMaxAttempts retry_NewStandard (APIRetries awsConfig))"
  by (auto simp: newV2Config_def v2_defs Let_def split: option.splits if_splits)





lemma example_no_retries_builds:
  "\<exists>session cfg.
     fst (newSession example_environment example_config_no_retries example_world) = Inr session
     \<and> fst (newV2Config example_environment example_config_no_retries example_world) = Inr cfg"
  using newSession_success [of example_environment example_config_no_retries example_world]
    newV2Config_success [of example_environment example_config_no_retries example_world]
  by (auto simp: example_environment_def example_config_no_retries_def newSession_Options_def
        v2_defs)

text \<open>
  Claim C1 says that the handle of either builder has an effective maximum-retry
  setting equal to \<open>APIRetries\<close>. \<open>newSession\<close> stores \<open>APIRetries\<close> as \<open>MaxRetries\<close>;
  \<open>newV2Config\<close> stores it as the retryer's \<open>MaxAttempts\<close>, which counts the first try.
  With \<open>APIRetries = 3\<close> the legacy handle allows 3 retries and the newer one 2; with
  \<open>APIRetries = 0\<close> the legacy handle allows none and the newer one sets no bound.
\<close>

theorem C1_max_attempts_is_not_max_retries:
  "APIRetries example_config = 3
   \<and> (\<exists>session cfg r.
        fst (newSession example_environment example_config example_world) = Inr session
        \<and> MaxRetries (Config session) = Some 3
        \<and> legacy_max_retries (Config session) = 3
        \<and> fst (newV2Config example_environment example_config example_world) = Inr cfg
        \<and> Retryer cfg = Some r
        \<and> MaxAttempts r = 3
        \<and> retryer_max_retries r = Some 2)
   \<and> APIRetries example_config_no_retries = 0
   \<and> (\<exists>session cfg r.
        fst (newSession example_environment example_config_no_retries example_world) = Inr session
        \<and> legacy_max_retries (Config session) = 0
        \<and> fst (newV2Config example_environment example_config_no_retries example_world) = Inr cfg
        \<and> Retryer cfg = Some r
        \<and> MaxAttempts r = 0
        \<and> retryer_max_retries r = None)"
proof -
  obtain session cfg where
    s: "fst (newSession example_environment example_config example_world) = Inr session"
    and c: "fst (newV2Config example_environment example_config example_world) = Inr cfg"
    using example_session_builds example_config_builds by blast
  have three: "APIRetries example_config = 3"
    by (simp add: example_config_def)
  from newSession_MaxRetries [OF s] newV2Config_Retryer [OF c] three
  have "MaxRetries (Config session) = Some 3"
    "legacy_max_retries (Config session) = 3"
    "Retryer cfg = Some (retry_AddWithMaxAttempts retry_NewStandard 3)"
    "MaxAttempts (retry_AddWithMaxAttempts retry_NewStandard 3) = 3"
    "retryer_max_retries (retry_AddWithMaxAttempts retry_NewStandard 3) = Some 2"
    by (simp_all add: legacy_max_retries_def retryer_max_retries_def UseServiceDefaultRetries_def)
  with s c have first: "\<exists>session cfg r.
        fst (newSession example_environment example_config example_world) = Inr session
        \<and> MaxRetries (Config session) = Some 3
        \<and> legacy_max_retries (Config session) = 3
        \<and> fst (newV2Config example_environment example_config example_world) = Inr cfg
        \<and> Retryer cfg = Some r
        \<and> MaxAttempts r = 3
        \<and> retryer_max_retries r = Some 2"
    by blast
  obtain session0 cfg0 where
    s0: "fst (newSession example_environment example_config_no_retries example_world) = Inr session0"
    and c0: "fst (newV2Config example_environment example_config_no_retries example_world) = Inr cfg0"
    using example_no_retries_builds by blast
  have zero: "APIRetries example_config_no_retries = 0"
    by (simp add: example_config_no_retries_def)
  from newSession_MaxRetries [OF s0] newV2Config_Retryer [OF c0] zero
  have "legacy_max_retries (Config session0) = 0"
    "Retryer cfg0 = Some (retry_AddWithMaxAttempts retry_NewStandard 0)"
    "MaxAttempts (retry_AddWithMaxAttempts retry_NewStandard 0) = 0"
    "retryer_max_retries (retry_AddWithMaxAttempts retry_NewStandard 0) = None"
    by (simp_all add: legacy_max_retries_def retryer_max_retries_def UseServiceDefaultRetries_def)
  with s0 c0 have second: "\<exists>session cfg r.
        fst (newSession example_environment example_config_no_retries example_world) = Inr session
        \<and> legacy_max_retries (Config session) = 0
        \<and> fst (newV2Config example_environment example_config_no_retries example_world) = Inr cfg
        \<and> Retryer cfg = Some r
        \<and> MaxAttempts r = 0
        \<and> retryer_max_retries r = None"
    by blast
  from three first zero second show ?thesis
    by blast
qed




end
